theory Spec2Isabelle
  imports Main "HOL-Library.FSet"
begin

section \<open>Data model\<close>

text \<open>
  The views of \<^verbatim>\<open>party/views.py\<close> work on three kinds of rows. A user is
  referenced by identifier only; the views compare users (\<^verbatim>\<open>party.owner != request.user\<close>)
  and read \<^verbatim>\<open>request.user.public_id\<close>, so a user is identified with its public id.
  A party is looked up by \<^verbatim>\<open>public_id\<close>, an invitation by \<^verbatim>\<open>pk\<close>.
  \<^verbatim>\<open>participants\<close> is a many-to-many relation, that is a finite set of users.
\<close>

type_synonym user = nat

record party =
  public_id :: nat
  owner :: user
  participants :: "user fset"

record party_invitation =
  pk :: nat
  party :: nat
  receiver :: user

text \<open>
  The record store: \<^verbatim>\<open>Party.objects.all()\<close> and \<^verbatim>\<open>PartyInvitation.objects.all()\<close>,
  each a table whose rows are kept in the store's natural order.
\<close>

record store =
  parties :: "party list"
  invitations :: "party_invitation list"

text \<open>
  \<^verbatim>\<open>request.data\<close>: a dictionary from field names to values. The fields the views
  read or write are identifier-valued (\<^verbatim>\<open>owner_public_id\<close>, \<^verbatim>\<open>party_public_id\<close>).
\<close>

type_synonym payload = "string \<rightharpoonup> nat"

datatype error = Http404 | MultipleObjectsReturned | ValidationError

datatype status =
  HTTP_200_OK | HTTP_201_CREATED | HTTP_204_NO_CONTENT | HTTP_403_FORBIDDEN

datatype body =
  NoData
  | PartyData party
  | PartyListData "party list"
  | InvitationData party_invitation
  | InvitationListData "party_invitation list"

datatype response = Response (status_code: status) (data: body)

section \<open>Store access\<close>

text \<open>
  \<^verbatim>\<open>get_object_or_404(klass, **kwargs)\<close>: the single row that satisfies the lookup;
  no row raises \<^verbatim>\<open>Http404\<close>, several rows raise \<^verbatim>\<open>MultipleObjectsReturned\<close>.
\<close>

definition get_object_or_404 :: "'a list \<Rightarrow> ('a \<Rightarrow> bool) \<Rightarrow> error + 'a" where
  "get_object_or_404 rows lookup =
     (case filter lookup rows of
        [] \<Rightarrow> Inl Http404
      | [x] \<Rightarrow> Inr x
      | _ \<Rightarrow> Inl MultipleObjectsReturned)"

text \<open>\<^verbatim>\<open>PartyViewSet.get_object\<close>: \<^verbatim>\<open>lookup_field = 'public_id'\<close> on \<^verbatim>\<open>Party.objects.all()\<close>.\<close>

definition PartyViewSet_get_object :: "store \<Rightarrow> nat \<Rightarrow> error + party" where
  "PartyViewSet_get_object st pid = get_object_or_404 (parties st) (\<lambda>p. public_id p = pid)"

text \<open>
  \<^verbatim>\<open>PartyInvitationViewSet.get_object\<close>: \<^verbatim>\<open>lookup_field = 'pk'\<close> on
  \<^verbatim>\<open>PartyInvitation.objects.all()\<close>; the party of the request path plays no part.
\<close>

definition PartyInvitationViewSet_get_object :: "store \<Rightarrow> nat \<Rightarrow> error + party_invitation" where
  "PartyInvitationViewSet_get_object st k = get_object_or_404 (invitations st) (\<lambda>i. pk i = k)"

text \<open>\<^verbatim>\<open>PartyInvitationViewSet.get_party\<close> (lines 167-168).\<close>

definition get_party :: "store \<Rightarrow> nat \<Rightarrow> error + party" where
  "get_party st party_public_id =
     get_object_or_404 (parties st) (\<lambda>p. public_id p = party_public_id)"

text \<open>\<^verbatim>\<open>perform_update\<close> / \<^verbatim>\<open>party.save()\<close>: the row of that party is overwritten.\<close>

definition save_party :: "store \<Rightarrow> party \<Rightarrow> store" where
  "save_party st p =
     st\<lparr>parties := map (\<lambda>q. if public_id q = public_id p then p else q) (parties st)\<rparr>"

text \<open>
  Modelled from the spec: the \<^verbatim>\<open>on_delete\<close> rule of the invitation's party reference
  is declared in \<^verbatim>\<open>party/models.py\<close>, which is not among the sources; the spec has the
  delete of a party cascade to its invitations. \<^verbatim>\<open>perform_destroy(party)\<close> deletes the
  party's row, and with it the invitations that reference the party.
\<close>

definition perform_destroy_party :: "store \<Rightarrow> party \<Rightarrow> store" where
  "perform_destroy_party st p =
     st\<lparr>parties := filter (\<lambda>q. public_id q \<noteq> public_id p) (parties st),
        invitations := filter (\<lambda>i. party i \<noteq> public_id p) (invitations st)\<rparr>"

text \<open>\<^verbatim>\<open>perform_destroy(invitation)\<close>: the invitation's row is deleted by primary key.\<close>

definition perform_destroy_invitation :: "store \<Rightarrow> party_invitation \<Rightarrow> store" where
  "perform_destroy_invitation st i =
     st\<lparr>invitations := filter (\<lambda>j. pk j \<noteq> pk i) (invitations st)\<rparr>"

text \<open>A store-assigned identifier: one no row of the table carries.\<close>

definition fresh_id :: "nat list \<Rightarrow> nat" where
  "fresh_id ks = Suc (fold max ks 0)"

section \<open>Models and serializers\<close>

text \<open>
  Modelled from the spec: \<^verbatim>\<open>Party.can_see_party\<close> is a method of \<^verbatim>\<open>party/models.py\<close>,
  which is not among the sources. The spec: true iff the actor is the owner or the actor
  is in participants.
\<close>

definition can_see_party :: "party \<Rightarrow> user \<Rightarrow> bool" where
  "can_see_party p u = (u = owner p \<or> u |\<in>| participants p)"

text \<open>
  Modelled from the spec: \<^verbatim>\<open>PartyInvitation.accept\<close> is a method of
  \<^verbatim>\<open>party/models.py\<close>, which is not among the sources. The spec: add the receiver to the
  party's participant set (adding a participant already present changes nothing) and
  delete the invitation record, both or none.
\<close>

definition PartyInvitation_accept :: "store \<Rightarrow> party_invitation \<Rightarrow> store" where
  "PartyInvitation_accept st i =
     st\<lparr>parties :=
          map (\<lambda>q. if public_id q = party i
                    then q\<lparr>participants := finsert (receiver i) (participants q)\<rparr>
                    else q)
              (parties st),
        invitations := filter (\<lambda>j. pk j \<noteq> pk i) (invitations st)\<rparr>"

text \<open>
  Modelled from the spec: \<^verbatim>\<open>PartySerializer\<close> is declared in \<^verbatim>\<open>party/serializers.py\<close>,
  which is not among the sources. The views write the owner through its field
  \<^verbatim>\<open>owner_public_id\<close> (lines 24 and 63). A full validation requires the field; a
  partial one (\<^verbatim>\<open>partial=True\<close>) takes the fields the payload has and keeps the
  instance's value for the others. A missing required field is the spec's
  \<^verbatim>\<open>ValidationFailed\<close>, raised by \<^verbatim>\<open>is_valid(raise_exception=True)\<close>.
\<close>

definition PartySerializer_update :: "party \<Rightarrow> payload \<Rightarrow> bool \<Rightarrow> error + party" where
  "PartySerializer_update instance d partial =
     (case d ''owner_public_id'' of
        Some u \<Rightarrow> Inr (instance\<lparr>owner := u\<rparr>)
      | None \<Rightarrow> if partial then Inr instance else Inl ValidationError)"

text \<open>
  Modelled from the spec: the same serializer, validating the payload of a create
  (\<^verbatim>\<open>owner_public_id\<close> is required); the new party has a store-assigned identifier
  and no participant (membership is granted only through the invitation workflow).
\<close>

definition PartySerializer_create :: "store \<Rightarrow> payload \<Rightarrow> error + party" where
  "PartySerializer_create st d =
     (case d ''owner_public_id'' of
        Some u \<Rightarrow>
          Inr \<lparr>public_id = fresh_id (map public_id (parties st)), owner = u,
               participants = {||}\<rparr>
      | None \<Rightarrow> Inl ValidationError)"

text \<open>
  Modelled from the spec: \<^verbatim>\<open>PartyInvitationSerializer\<close> is declared in
  \<^verbatim>\<open>party/serializers.py\<close>, which is not among the sources. The view writes the target
  party through its field \<^verbatim>\<open>party_public_id\<close> (line 114); the receiver is a required
  field of the payload (the spec: an invitation with no receiver is \<^verbatim>\<open>ValidationFailed\<close>),
  and the referenced party must resolve in the store.
\<close>

definition PartyInvitationSerializer_create :: "store \<Rightarrow> payload \<Rightarrow> error + party_invitation" where
  "PartyInvitationSerializer_create st d =
     (case (d ''party_public_id'', d ''receiver_public_id'') of
        (Some p, Some r) \<Rightarrow>
          (case get_object_or_404 (parties st) (\<lambda>q. public_id q = p) of
             Inr q \<Rightarrow> Inr \<lparr>pk = fresh_id (map pk (invitations st)), party = public_id q, receiver = r\<rparr>
           | Inl e \<Rightarrow> Inl ValidationError)
      | _ \<Rightarrow> Inl ValidationError)"

section \<open>PartyViewSet\<close>

text \<open>
  Every view takes the store, \<^verbatim>\<open>request.user\<close>, the identifiers of the request path
  and \<^verbatim>\<open>request.data\<close>; a view that writes returns the response with the new store.
  A raised exception is \<open>Inl\<close>.
\<close>

text \<open>\<^verbatim>\<open>PartyViewSet.create\<close> (lines 20-25).\<close>

definition PartyViewSet_create :: "store \<Rightarrow> user \<Rightarrow> payload \<Rightarrow> error + response \<times> store" where
  "PartyViewSet_create st request_user request_data =
     (let d = request_data(''owner_public_id'' \<mapsto> request_user) in
      case PartySerializer_create st d of
        Inl e \<Rightarrow> Inl e
      | Inr p \<Rightarrow> Inr (Response HTTP_201_CREATED (PartyData p), st\<lparr>parties := parties st @ [p]\<rparr>))"

text \<open>\<^verbatim>\<open>PartyViewSet.retrieve\<close> (lines 27-37).\<close>

definition PartyViewSet_retrieve :: "store \<Rightarrow> user \<Rightarrow> nat \<Rightarrow> error + response" where
  "PartyViewSet_retrieve st request_user pid =
     (case PartyViewSet_get_object st pid of
        Inl e \<Rightarrow> Inl e
      | Inr p \<Rightarrow>
          if \<not> can_see_party p request_user then Inr (Response HTTP_403_FORBIDDEN NoData)
          else Inr (Response HTTP_200_OK (PartyData p)))"

text \<open>\<^verbatim>\<open>PartyViewSet.list\<close> (lines 39-45).\<close>

definition PartyViewSet_list :: "store \<Rightarrow> user \<Rightarrow> error + response" where
  "PartyViewSet_list st request_user =
     Inr (Response HTTP_200_OK
            (PartyListData (filter (\<lambda>p. can_see_party p request_user) (parties st))))"

text \<open>
  \<^verbatim>\<open>PartyViewSet.list_mine\<close> (lines 47-54): \<^verbatim>\<open>parties_where_im_owner\<close> is the reverse
  relation of the party's owner.
\<close>

definition PartyViewSet_list_mine :: "store \<Rightarrow> user \<Rightarrow> error + response" where
  "PartyViewSet_list_mine st request_user =
     Inr (Response HTTP_200_OK
            (PartyListData (filter (\<lambda>p. owner p = request_user) (parties st))))"

text \<open>\<^verbatim>\<open>PartyViewSet.update\<close> (lines 56-67).\<close>

definition PartyViewSet_update :: "store \<Rightarrow> user \<Rightarrow> nat \<Rightarrow> payload \<Rightarrow> error + response \<times> store" where
  "PartyViewSet_update st request_user pid request_data =
     (case PartyViewSet_get_object st pid of
        Inl e \<Rightarrow> Inl e
      | Inr p \<Rightarrow>
          if owner p \<noteq> request_user then Inr (Response HTTP_403_FORBIDDEN NoData, st)
          else
            let d = request_data(''owner_public_id'' \<mapsto> request_user) in
            (case PartySerializer_update p d False of
               Inl e \<Rightarrow> Inl e
             | Inr p' \<Rightarrow> Inr (Response HTTP_200_OK (PartyData p'), save_party st p')))"

text \<open>\<^verbatim>\<open>PartyViewSet.partial_update\<close> (lines 69-79).\<close>

definition PartyViewSet_partial_update :: "store \<Rightarrow> user \<Rightarrow> nat \<Rightarrow> payload \<Rightarrow> error + response \<times> store" where
  "PartyViewSet_partial_update st request_user pid request_data =
     (case PartyViewSet_get_object st pid of
        Inl e \<Rightarrow> Inl e
      | Inr p \<Rightarrow>
          if owner p \<noteq> request_user then Inr (Response HTTP_403_FORBIDDEN NoData, st)
          else
            (case PartySerializer_update p request_data True of
               Inl e \<Rightarrow> Inl e
             | Inr p' \<Rightarrow> Inr (Response HTTP_200_OK (PartyData p'), save_party st p')))"

text \<open>\<^verbatim>\<open>PartyViewSet.destroy\<close> (lines 81-96).\<close>

definition PartyViewSet_destroy :: "store \<Rightarrow> user \<Rightarrow> nat \<Rightarrow> error + response \<times> store" where
  "PartyViewSet_destroy st request_user pid =
     (case PartyViewSet_get_object st pid of
        Inl e \<Rightarrow> Inl e
      | Inr p \<Rightarrow>
          if owner p \<noteq> request_user \<and> request_user |\<notin>| participants p
          then Inr (Response HTTP_403_FORBIDDEN NoData, st)
          else if owner p \<noteq> request_user
          then Inr (Response HTTP_204_NO_CONTENT NoData,
                    save_party st (p\<lparr>participants := participants p |-| {|request_user|}\<rparr>))
          else Inr (Response HTTP_204_NO_CONTENT NoData, perform_destroy_party st p))"

section \<open>PartyInvitationViewSet\<close>

text \<open>\<^verbatim>\<open>PartyInvitationViewSet.create\<close> (lines 105-117).\<close>

definition PartyInvitationViewSet_create ::
  "store \<Rightarrow> user \<Rightarrow> nat \<Rightarrow> payload \<Rightarrow> error + response \<times> store" where
  "PartyInvitationViewSet_create st request_user party_public_id request_data =
     (case get_party st party_public_id of
        Inl e \<Rightarrow> Inl e
      | Inr p \<Rightarrow>
          if request_user \<noteq> owner p then Inr (Response HTTP_403_FORBIDDEN NoData, st)
          else
            (case PartyInvitationSerializer_create st
                    (request_data(''party_public_id'' \<mapsto> public_id p)) of
               Inl e \<Rightarrow> Inl e
             | Inr i \<Rightarrow>
                 Inr (Response HTTP_201_CREATED NoData,
                      st\<lparr>invitations := invitations st @ [i]\<rparr>)))"

text \<open>\<^verbatim>\<open>PartyInvitationViewSet.accept\<close> (lines 119-130).\<close>

definition PartyInvitationViewSet_accept :: "store \<Rightarrow> user \<Rightarrow> nat \<Rightarrow> error + response \<times> store" where
  "PartyInvitationViewSet_accept st request_user k =
     (case PartyInvitationViewSet_get_object st k of
        Inl e \<Rightarrow> Inl e
      | Inr invitation \<Rightarrow>
          if request_user \<noteq> receiver invitation
          then Inr (Response HTTP_204_NO_CONTENT NoData, st)
          else Inr (Response HTTP_201_CREATED NoData, PartyInvitation_accept st invitation))"

text \<open>\<^verbatim>\<open>PartyInvitationViewSet.list\<close> (lines 132-143).\<close>

definition PartyInvitationViewSet_list :: "store \<Rightarrow> user \<Rightarrow> nat \<Rightarrow> error + response" where
  "PartyInvitationViewSet_list st request_user party_public_id =
     (case get_party st party_public_id of
        Inl e \<Rightarrow> Inl e
      | Inr p \<Rightarrow>
          if request_user \<noteq> owner p then Inr (Response HTTP_403_FORBIDDEN NoData)
          else Inr (Response HTTP_200_OK
                      (InvitationListData
                         (filter (\<lambda>i. party i = public_id p) (invitations st)))))"

text \<open>\<^verbatim>\<open>PartyInvitationViewSet.list_mine\<close> (lines 145-152).\<close>

definition PartyInvitationViewSet_list_mine :: "store \<Rightarrow> user \<Rightarrow> error + response" where
  "PartyInvitationViewSet_list_mine st request_user =
     Inr (Response HTTP_200_OK
            (InvitationListData (filter (\<lambda>i. receiver i = request_user) (invitations st))))"

text \<open>\<^verbatim>\<open>PartyInvitationViewSet.destroy\<close> (lines 154-165).\<close>

definition PartyInvitationViewSet_destroy ::
  "store \<Rightarrow> user \<Rightarrow> nat \<Rightarrow> nat \<Rightarrow> error + response \<times> store" where
  "PartyInvitationViewSet_destroy st request_user party_public_id k =
     (case PartyInvitationViewSet_get_object st k of
        Inl e \<Rightarrow> Inl e
      | Inr invitation \<Rightarrow>
          (case get_party st party_public_id of
             Inl e \<Rightarrow> Inl e
           | Inr p \<Rightarrow>
               if request_user \<notin> set [owner p, receiver invitation]
               then Inr (Response HTTP_403_FORBIDDEN NoData, st)
               else Inr (Response HTTP_204_NO_CONTENT NoData,
                         perform_destroy_invitation st invitation)))"

section \<open>Sequences of requests\<close>

text \<open>
  A client that sends accept requests one after another, each as some user for some
  invitation identifier, on the store the request before left; it stops at the first
  exception.
\<close>

fun accept_calls :: "store \<Rightarrow> (user \<times> nat) list \<Rightarrow> error + store" where
  "accept_calls st [] = Inr st"
| "accept_calls st ((u, k) # calls) =
     (case PartyInvitationViewSet_accept st u k of
        Inl e \<Rightarrow> Inl e
      | Inr (r, st') \<Rightarrow> accept_calls st' calls)"

section \<open>An example store\<close>

text \<open>
  Two parties and two pending invitations: user 1 owns party 10, in which user 2
  participates and to which user 4 is invited; user 3 owns party 20, to which user 2 is
  invited.
\<close>

definition example_store :: store where
  "example_store =
     \<lparr>parties =
        [\<lparr>public_id = 10, owner = 1, participants = {|2|}\<rparr>,
         \<lparr>public_id = 20, owner = 3, participants = {||}\<rparr>],
      invitations =
        [\<lparr>pk = 1, party = 10, receiver = 4\<rparr>,
         \<lparr>pk = 2, party = 20, receiver = 2\<rparr>]\<rparr>"

section \<open>Lookups in a changed store\<close>

lemmas view_defs =
  PartyViewSet_get_object_def PartyInvitationViewSet_get_object_def get_party_def
  get_object_or_404_def save_party_def perform_destroy_party_def
  perform_destroy_invitation_def

lemma get_object_or_404_Inr:
  "get_object_or_404 rows lookup = Inr x \<longleftrightarrow> filter lookup rows = [x]"
  by (auto simp: get_object_or_404_def split: list.splits)

lemma get_object_or_404_Http404:
  "get_object_or_404 rows lookup = Inl Http404 \<longleftrightarrow> filter lookup rows = []"
  by (auto simp: get_object_or_404_def split: list.splits)

lemma get_object_or_404_holds:
  assumes "get_object_or_404 rows lookup = Inr x"
  shows "lookup x" and "x \<in> set rows"
proof -
  from assms have "filter lookup rows = [x]" by (simp add: get_object_or_404_Inr)
  then have "x \<in> set (filter lookup rows)" by simp
  then show "lookup x" and "x \<in> set rows" by simp_all
qed

lemma filter_map_keep_key:
  assumes "filter lookup rows = [x]" and "\<And>q. lookup (f q) = lookup q"
  shows "filter lookup (map f rows) = [f x]"
proof -
  have "filter lookup (map f rows) = map f (filter (lookup \<circ> f) rows)"
    by (simp add: filter_map)
  also have "lookup \<circ> f = lookup" using assms(2) by (simp add: fun_eq_iff)
  finally show ?thesis using assms(1) by simp
qed

lemma filter_removed: "filter lookup (filter (\<lambda>q. \<not> lookup q) rows) = []"
  by (induction rows) auto

lemma filter_other_kept:
  assumes "\<And>q. lookup q \<Longrightarrow> keep q"
  shows "filter lookup (filter keep rows) = filter lookup rows"
  using assms by (induction rows) auto

lemma filter_map_other:
  assumes "\<And>q. lookup (f q) = lookup q" and "\<And>q. lookup q \<Longrightarrow> f q = q"
  shows "filter lookup (map f rows) = filter lookup rows"
  using assms by (induction rows) auto

lemma save_party_get_object:
  assumes "PartyViewSet_get_object st pid = Inr p" and "public_id p' = public_id p"
  shows "PartyViewSet_get_object (save_party st p') pid = Inr p'"
proof -
  from assms(1) have one: "filter (\<lambda>q. public_id q = pid) (parties st) = [p]"
    by (simp add: PartyViewSet_get_object_def get_object_or_404_Inr)
  then have "p \<in> set (filter (\<lambda>q. public_id q = pid) (parties st))" by simp
  then have key: "public_id p = pid" by simp
  let ?f = "\<lambda>q. if public_id q = public_id p' then p' else q"
  have "filter (\<lambda>q. public_id q = pid) (map ?f (parties st)) = [?f p]"
    using one by (rule filter_map_keep_key) (simp add: assms(2) key)
  then show ?thesis
    by (simp add: PartyViewSet_get_object_def get_object_or_404_Inr save_party_def assms(2))
qed

lemma save_party_get_object_other:
  assumes "pid' \<noteq> public_id p'"
  shows "PartyViewSet_get_object (save_party st p') pid' = PartyViewSet_get_object st pid'"
proof -
  have "filter (\<lambda>q. public_id q = pid')
          (map (\<lambda>q. if public_id q = public_id p' then p' else q) (parties st))
        = filter (\<lambda>q. public_id q = pid') (parties st)"
    by (rule filter_map_other) (use assms in auto)
  then show ?thesis
    by (simp add: PartyViewSet_get_object_def get_object_or_404_def save_party_def)
qed

lemma perform_destroy_party_get_object:
  assumes "PartyViewSet_get_object st pid = Inr p"
  shows "PartyViewSet_get_object (perform_destroy_party st p) pid = Inl Http404"
proof -
  from assms have "public_id p = pid"
    using get_object_or_404_holds(1) [of "parties st" "\<lambda>q. public_id q = pid" p]
    by (simp add: PartyViewSet_get_object_def)
  then show ?thesis
    using filter_removed [of "\<lambda>q. public_id q = pid" "parties st"]
    by (simp add: PartyViewSet_get_object_def get_object_or_404_Http404 perform_destroy_party_def)
qed

lemma perform_destroy_party_get_object_other:
  assumes "pid' \<noteq> public_id p"
  shows "PartyViewSet_get_object (perform_destroy_party st p) pid' = PartyViewSet_get_object st pid'"
proof -
  have "filter (\<lambda>q. public_id q = pid') (filter (\<lambda>q. public_id q \<noteq> public_id p) (parties st))
        = filter (\<lambda>q. public_id q = pid') (parties st)"
    by (rule filter_other_kept) (use assms in auto)
  then show ?thesis
    by (simp add: PartyViewSet_get_object_def get_object_or_404_def perform_destroy_party_def)
qed

lemma get_party_key:
  assumes "get_party st pid = Inr p"
  shows "public_id p = pid"
  using assms get_object_or_404_holds(1) [of "parties st" "\<lambda>q. public_id q = pid" p]
  by (simp add: get_party_def)

lemma invitation_key:
  assumes "PartyInvitationViewSet_get_object st k = Inr i"
  shows "pk i = k"
  using assms get_object_or_404_holds(1) [of "invitations st" "\<lambda>j. pk j = k" i]
  by (simp add: PartyInvitationViewSet_get_object_def)

lemma perform_destroy_invitation_get_object:
  assumes "PartyInvitationViewSet_get_object st k = Inr i"
  shows "PartyInvitationViewSet_get_object (perform_destroy_invitation st i) k = Inl Http404"
  using invitation_key [OF assms] filter_removed [of "\<lambda>j. pk j = k" "invitations st"]
  by (simp add: PartyInvitationViewSet_get_object_def get_object_or_404_Http404
      perform_destroy_invitation_def)

lemma PartyInvitation_accept_get_object:
  assumes "PartyViewSet_get_object st (party i) = Inr p"
  shows "PartyViewSet_get_object (PartyInvitation_accept st i) (party i)
           = Inr (p\<lparr>participants := finsert (receiver i) (participants p)\<rparr>)"
proof -
  let ?f = "\<lambda>q. if public_id q = party i
                 then q\<lparr>participants := finsert (receiver i) (participants q)\<rparr> else q"
  from assms have one: "filter (\<lambda>q. public_id q = party i) (parties st) = [p]"
    by (simp add: PartyViewSet_get_object_def get_object_or_404_Inr)
  then have "p \<in> set (filter (\<lambda>q. public_id q = party i) (parties st))" by simp
  then have key: "public_id p = party i" by simp
  have "filter (\<lambda>q. public_id q = party i) (map ?f (parties st)) = [?f p]"
    using one by (rule filter_map_keep_key) simp
  then show ?thesis
    by (simp add: PartyViewSet_get_object_def get_object_or_404_Inr PartyInvitation_accept_def key)
qed

lemma PartyInvitation_accept_invitation_gone:
  "filter (\<lambda>j. pk j = pk i) (invitations (PartyInvitation_accept st i)) = []"
  using filter_removed [of "\<lambda>j. pk j = pk i" "invitations st"]
  by (simp add: PartyInvitation_accept_def)

lemma accept_Http404:
  assumes "PartyInvitationViewSet_get_object st k = Inl Http404"
  shows "PartyInvitationViewSet_accept st u k = Inl Http404"
  using assms by (simp add: PartyInvitationViewSet_accept_def)

lemma accept_wrong_actor:
  assumes "PartyInvitationViewSet_get_object st k = Inr i" and "u \<noteq> receiver i"
  shows "PartyInvitationViewSet_accept st u k = Inr (Response HTTP_204_NO_CONTENT NoData, st)"
  using assms by (simp add: PartyInvitationViewSet_accept_def)

lemma accept_calls_wrong_actors:
  assumes "\<forall>(u, k) \<in> set calls.
             \<exists>i. PartyInvitationViewSet_get_object st k = Inr i \<and> u \<noteq> receiver i"
  shows "accept_calls st calls = Inr st"
  using assms
proof (induction calls)
  case Nil
  show ?case by simp
next
  case (Cons c calls)
  obtain u k where c: "c = (u, k)" by (cases c)
  from Cons.prems c obtain i
    where "PartyInvitationViewSet_get_object st k = Inr i" and "u \<noteq> receiver i"
    by auto
  then have "PartyInvitationViewSet_accept st u k = Inr (Response HTTP_204_NO_CONTENT NoData, st)"
    by (rule accept_wrong_actor)
  moreover have "accept_calls st calls = Inr st"
    using Cons.IH Cons.prems by simp
  ultimately show ?case by (simp add: c)
qed

lemma fold_max_ge_init: "(a::nat) \<le> fold max ks a"
proof (induction ks arbitrary: a)
  case Nil
  show ?case by simp
next
  case (Cons x ks)
  have "a \<le> max x a" by simp
  also have "\<dots> \<le> fold max ks (max x a)" by (rule Cons.IH)
  finally show ?case by simp
qed

lemma fold_max_ge_elem: "k \<in> set ks \<Longrightarrow> k \<le> fold max ks (a::nat)"
proof (induction ks arbitrary: a)
  case Nil
  then show ?case by simp
next
  case (Cons x ks)
  show ?case
  proof (cases "k = x")
    case True
    have "x \<le> max x a" by simp
    also have "\<dots> \<le> fold max ks (max x a)" by (rule fold_max_ge_init)
    finally show ?thesis using True by simp
  next
    case False
    with Cons.prems have "k \<in> set ks" by simp
    then show ?thesis by (simp add: Cons.IH)
  qed
qed

lemma fresh_id_fresh: "fresh_id ks \<notin> set ks"
proof
  assume "fresh_id ks \<in> set ks"
  then have "fresh_id ks \<le> fold max ks 0" by (rule fold_max_ge_elem)
  then show False by (simp add: fresh_id_def)
qed

lemma appended_invitation_get_object:
  assumes "pk i = fresh_id (map pk (invitations st))"
  shows "PartyInvitationViewSet_get_object (st\<lparr>invitations := invitations st @ [i]\<rparr>) (pk i)
           = Inr i"
proof -
  have "\<forall>j \<in> set (invitations st). pk j \<noteq> pk i"
    using fresh_id_fresh [of "map pk (invitations st)"] assms by force
  then have "filter (\<lambda>j. pk j = pk i) (invitations st) = []"
    by (simp add: filter_empty_conv)
  then show ?thesis
    by (simp add: PartyInvitationViewSet_get_object_def get_object_or_404_Inr)
qed

lemma PartyInvitationSerializer_create_path_party:
  assumes "get_party st pid = Inr p"
  shows "PartyInvitationSerializer_create st (d(''party_public_id'' \<mapsto> public_id p))
           = (case d ''receiver_public_id'' of
                Some r \<Rightarrow>
                  Inr \<lparr>pk = fresh_id (map pk (invitations st)), party = pid, receiver = r\<rparr>
              | None \<Rightarrow> Inl ValidationError)"
proof -
  have key: "public_id p = pid" using assms by (rule get_party_key)
  have found: "get_object_or_404 (parties st) (\<lambda>q. public_id q = pid) = Inr p"
    using assms by (simp add: get_party_def)
  show ?thesis
    by (simp add: PartyInvitationSerializer_create_def key found split: option.splits)
qed

lemma PartyInvitationViewSet_create_owner:
  assumes "get_party st pid = Inr p"
  shows "PartyInvitationViewSet_create st (owner p) pid d
           = (case d ''receiver_public_id'' of
                Some r \<Rightarrow>
                  Inr (Response HTTP_201_CREATED NoData,
                       st\<lparr>invitations := invitations st @
                            [\<lparr>pk = fresh_id (map pk (invitations st)), party = pid,
                              receiver = r\<rparr>]\<rparr>)
              | None \<Rightarrow> Inl ValidationError)"
  using assms
  by (simp add: PartyInvitationViewSet_create_def
      PartyInvitationSerializer_create_path_party [OF assms] split: option.splits)

lemma PartyInvitationViewSet_create_forbidden:
  assumes "get_party st pid = Inr p" and "u \<noteq> owner p"
  shows "PartyInvitationViewSet_create st u pid d = Inr (Response HTTP_403_FORBIDDEN NoData, st)"
  using assms by (simp add: PartyInvitationViewSet_create_def)

section \<open>Leaving or deleting a party\<close>

text \<open>
  Claim C4. For a party \<open>P\<close> that the lookup of the request finds and an actor \<open>A\<close>,
  \<^verbatim>\<open>PartyViewSet.destroy\<close> has exactly three outcomes. If \<open>A\<close> is the owner, the whole
  party is deleted: a later lookup of it is \<^verbatim>\<open>Http404\<close>, every other party is as before.
  If \<open>A\<close> is a participant and not the owner, only \<open>A\<close> is removed from the participants:
  the party persists with one participant fewer and its owner unchanged, and invitations
  and other parties are untouched. If \<open>A\<close> is neither, the answer is 403 and the store is
  unchanged.
\<close>

theorem PartyViewSet_destroy_three_outcomes:
  assumes "PartyViewSet_get_object st pid = Inr P"
  shows "(A = owner P \<longrightarrow>
            PartyViewSet_destroy st A pid
              = Inr (Response HTTP_204_NO_CONTENT NoData, perform_destroy_party st P)
          \<and> PartyViewSet_get_object (perform_destroy_party st P) pid = Inl Http404
          \<and> (\<forall>pid'. pid' \<noteq> pid \<longrightarrow>
                PartyViewSet_get_object (perform_destroy_party st P) pid'
                  = PartyViewSet_get_object st pid'))
       \<and> (A \<noteq> owner P \<and> A |\<in>| participants P \<longrightarrow>
            PartyViewSet_destroy st A pid
              = Inr (Response HTTP_204_NO_CONTENT NoData,
                     save_party st (P\<lparr>participants := participants P |-| {|A|}\<rparr>))
          \<and> PartyViewSet_get_object
                (save_party st (P\<lparr>participants := participants P |-| {|A|}\<rparr>)) pid
              = Inr (P\<lparr>participants := participants P |-| {|A|}\<rparr>)
          \<and> fcard (participants P |-| {|A|}) = fcard (participants P) - 1
          \<and> invitations (save_party st (P\<lparr>participants := participants P |-| {|A|}\<rparr>))
              = invitations st
          \<and> (\<forall>pid'. pid' \<noteq> pid \<longrightarrow>
                PartyViewSet_get_object
                  (save_party st (P\<lparr>participants := participants P |-| {|A|}\<rparr>)) pid'
                  = PartyViewSet_get_object st pid'))
       \<and> (A \<noteq> owner P \<and> A |\<notin>| participants P \<longrightarrow>
            PartyViewSet_destroy st A pid = Inr (Response HTTP_403_FORBIDDEN NoData, st))"
proof -
  from assms have key: "public_id P = pid"
    using get_object_or_404_holds(1) [of "parties st" "\<lambda>q. public_id q = pid" P]
    by (simp add: PartyViewSet_get_object_def)
  let ?P' = "P\<lparr>participants := participants P |-| {|A|}\<rparr>"
  have owner_case: "A = owner P \<longrightarrow>
      PartyViewSet_destroy st A pid
        = Inr (Response HTTP_204_NO_CONTENT NoData, perform_destroy_party st P)"
    using assms by (simp add: PartyViewSet_destroy_def)
  have gone: "PartyViewSet_get_object (perform_destroy_party st P) pid = Inl Http404"
    using assms by (rule perform_destroy_party_get_object)
  have others_kept: "\<forall>pid'. pid' \<noteq> pid \<longrightarrow>
      PartyViewSet_get_object (perform_destroy_party st P) pid' = PartyViewSet_get_object st pid'"
    using key by (simp add: perform_destroy_party_get_object_other)
  have member_case: "A \<noteq> owner P \<and> A |\<in>| participants P \<longrightarrow>
      PartyViewSet_destroy st A pid = Inr (Response HTTP_204_NO_CONTENT NoData, save_party st ?P')"
    using assms by (simp add: PartyViewSet_destroy_def)
  have persists: "PartyViewSet_get_object (save_party st ?P') pid = Inr ?P'"
    using assms by (rule save_party_get_object) simp
  have fewer: "A |\<in>| participants P \<longrightarrow>
      fcard (participants P |-| {|A|}) = fcard (participants P) - 1"
    by (simp add: fcard_fminus_fsingleton)
  have invitations_kept: "invitations (save_party st ?P') = invitations st"
    by (simp add: save_party_def)
  have others_same: "\<forall>pid'. pid' \<noteq> pid \<longrightarrow>
      PartyViewSet_get_object (save_party st ?P') pid' = PartyViewSet_get_object st pid'"
    using key by (simp add: save_party_get_object_other)
  have stranger_case: "A \<noteq> owner P \<and> A |\<notin>| participants P \<longrightarrow>
      PartyViewSet_destroy st A pid = Inr (Response HTTP_403_FORBIDDEN NoData, st)"
    using assms by (simp add: PartyViewSet_destroy_def)
  from owner_case gone others_kept member_case persists fewer invitations_kept others_same
    stranger_case
  show ?thesis by blast
qed

theorem PartyViewSet_destroy_three_outcomes_witness:
  "PartyViewSet_get_object example_store 10
     = Inr \<lparr>public_id = 10, owner = 1, participants = {|2|}\<rparr>
   \<and> PartyViewSet_destroy example_store 1 10
     = Inr (Response HTTP_204_NO_CONTENT NoData,
            \<lparr>parties = [\<lparr>public_id = 20, owner = 3, participants = {||}\<rparr>],
             invitations = [\<lparr>pk = 2, party = 20, receiver = 2\<rparr>]\<rparr>)
   \<and> PartyViewSet_destroy example_store 2 10
     = Inr (Response HTTP_204_NO_CONTENT NoData,
            \<lparr>parties = [\<lparr>public_id = 10, owner = 1, participants = {||}\<rparr>,
                        \<lparr>public_id = 20, owner = 3, participants = {||}\<rparr>],
             invitations = invitations example_store\<rparr>)
   \<and> PartyViewSet_destroy example_store 3 10
     = Inr (Response HTTP_403_FORBIDDEN NoData, example_store)"
proof -
  have got: "PartyViewSet_get_object example_store 10
     = Inr \<lparr>public_id = 10, owner = 1, participants = {|2|}\<rparr>"
    by (simp add: view_defs example_store_def)
  show ?thesis
    using PartyViewSet_destroy_three_outcomes [OF got, of 1]
      PartyViewSet_destroy_three_outcomes [OF got, of 2]
      PartyViewSet_destroy_three_outcomes [OF got, of 3]
    by (simp add: view_defs example_store_def)
qed

section \<open>Seeing a party\<close>

text \<open>
  Claim C5. For a party \<open>P\<close> that the lookup of the request finds and an actor \<open>A\<close>,
  \<^verbatim>\<open>PartyViewSet.retrieve\<close> answers with \<open>P\<close>'s data iff \<open>can_see_party P A\<close> holds,
  that is iff \<open>A\<close> is the owner of \<open>P\<close> or one of its participants, and answers 403
  otherwise; \<^verbatim>\<open>PartyViewSet.list\<close> answers with exactly the parties of the store that
  \<open>A\<close> owns or participates in, in the order of the store.
\<close>

theorem PartyViewSet_retrieve_list_can_see:
  "(PartyViewSet_get_object st pid = Inr P \<longrightarrow>
      (PartyViewSet_retrieve st A pid = Inr (Response HTTP_200_OK (PartyData P))
         \<longleftrightarrow> can_see_party P A)
    \<and> (\<not> can_see_party P A \<longrightarrow>
          PartyViewSet_retrieve st A pid = Inr (Response HTTP_403_FORBIDDEN NoData)))
   \<and> (can_see_party P A \<longleftrightarrow> A = owner P \<or> A |\<in>| participants P)
   \<and> PartyViewSet_list st A
       = Inr (Response HTTP_200_OK
               (PartyListData
                  (filter (\<lambda>p. A = owner p \<or> A |\<in>| participants p) (parties st))))"
  by (simp add: PartyViewSet_retrieve_def PartyViewSet_list_def can_see_party_def)

theorem PartyViewSet_retrieve_list_can_see_witness:
  "PartyViewSet_get_object example_store 10
     = Inr \<lparr>public_id = 10, owner = 1, participants = {|2|}\<rparr>
   \<and> PartyViewSet_retrieve example_store 1 10
     = Inr (Response HTTP_200_OK (PartyData \<lparr>public_id = 10, owner = 1, participants = {|2|}\<rparr>))
   \<and> PartyViewSet_retrieve example_store 2 10
     = Inr (Response HTTP_200_OK (PartyData \<lparr>public_id = 10, owner = 1, participants = {|2|}\<rparr>))
   \<and> \<not> can_see_party \<lparr>public_id = 10, owner = 1, participants = {|2|}\<rparr> 3
   \<and> PartyViewSet_retrieve example_store 3 10 = Inr (Response HTTP_403_FORBIDDEN NoData)
   \<and> PartyViewSet_list example_store 3
     = Inr (Response HTTP_200_OK
             (PartyListData [\<lparr>public_id = 20, owner = 3, participants = {||}\<rparr>]))
   \<and> PartyViewSet_list example_store 2
     = Inr (Response HTTP_200_OK
             (PartyListData [\<lparr>public_id = 10, owner = 1, participants = {|2|}\<rparr>]))"
proof -
  let ?P = "\<lparr>public_id = 10, owner = 1, participants = {|2|}\<rparr>"
  have got: "PartyViewSet_get_object example_store 10 = Inr ?P"
    by (simp add: view_defs example_store_def)
  show ?thesis
    using got
      PartyViewSet_retrieve_list_can_see [of example_store 10 ?P 1]
      PartyViewSet_retrieve_list_can_see [of example_store 10 ?P 2]
      PartyViewSet_retrieve_list_can_see [of example_store 10 ?P 3]
    by (simp add: example_store_def)
qed

section \<open>Listing invitations\<close>

text \<open>
  Claim C8. For a party \<open>P\<close> that the request path names, \<^verbatim>\<open>PartyInvitationViewSet.list\<close>
  answers the owner of \<open>P\<close> with the invitations of \<open>P\<close> and every other actor with
  403; \<^verbatim>\<open>list_mine\<close> answers any actor \<open>A\<close> with exactly the invitations whose
  receiver is \<open>A\<close>, whoever owns the parties.
\<close>

theorem PartyInvitationViewSet_list_owner_only:
  assumes "get_party st pid = Inr P"
  shows "(A = owner P \<longrightarrow>
            PartyInvitationViewSet_list st A pid
              = Inr (Response HTTP_200_OK
                      (InvitationListData (filter (\<lambda>i. party i = pid) (invitations st)))))
       \<and> (A \<noteq> owner P \<longrightarrow>
            PartyInvitationViewSet_list st A pid = Inr (Response HTTP_403_FORBIDDEN NoData))
       \<and> PartyInvitationViewSet_list_mine st A
            = Inr (Response HTTP_200_OK
                    (InvitationListData (filter (\<lambda>i. receiver i = A) (invitations st))))"
  using assms get_party_key [OF assms]
  by (simp add: PartyInvitationViewSet_list_def PartyInvitationViewSet_list_mine_def)

theorem PartyInvitationViewSet_list_owner_only_witness:
  "get_party example_store 10 = Inr \<lparr>public_id = 10, owner = 1, participants = {|2|}\<rparr>
   \<and> PartyInvitationViewSet_list example_store 1 10
     = Inr (Response HTTP_200_OK (InvitationListData [\<lparr>pk = 1, party = 10, receiver = 4\<rparr>]))
   \<and> PartyInvitationViewSet_list example_store 2 10 = Inr (Response HTTP_403_FORBIDDEN NoData)
   \<and> PartyInvitationViewSet_list_mine example_store 2
     = Inr (Response HTTP_200_OK (InvitationListData [\<lparr>pk = 2, party = 20, receiver = 2\<rparr>]))"
proof -
  have got: "get_party example_store 10 = Inr \<lparr>public_id = 10, owner = 1, participants = {|2|}\<rparr>"
    by (simp add: view_defs example_store_def)
  show ?thesis
    using got PartyInvitationViewSet_list_owner_only [OF got, of 1]
      PartyInvitationViewSet_list_owner_only [OF got, of 2]
    by (simp add: example_store_def)
qed

section \<open>Accepting an invitation\<close>

text \<open>
  Claim C2, as the code has it. For a pending invitation \<open>I\<close> and an actor \<open>A\<close> who is not
  its receiver, \<^verbatim>\<open>accept\<close> answers 204 (no error) and leaves the store as it was,
  parties and invitations alike; any sequence of accept requests by wrong actors, and so
  any number of repetitions of this one, leaves the store unchanged. The answer is not
  the one of a successful accept, which is 201, nor the one for an identifier that names
  no invitation, which is \<^verbatim>\<open>Http404\<close>.
\<close>

theorem PartyInvitationViewSet_accept_wrong_actor:
  assumes "PartyInvitationViewSet_get_object st k = Inr I" and "A \<noteq> receiver I"
  shows "PartyInvitationViewSet_accept st A k = Inr (Response HTTP_204_NO_CONTENT NoData, st)
       \<and> (\<forall>calls.
            (\<forall>(u, k') \<in> set calls.
               \<exists>J. PartyInvitationViewSet_get_object st k' = Inr J \<and> u \<noteq> receiver J)
            \<longrightarrow> accept_calls st calls = Inr st)
       \<and> accept_calls st (replicate n (A, k)) = Inr st
       \<and> map_sum id fst (PartyInvitationViewSet_accept st (receiver I) k)
           = Inr (Response HTTP_201_CREATED NoData)
       \<and> (PartyInvitationViewSet_get_object st k' = Inl Http404 \<longrightarrow>
            PartyInvitationViewSet_accept st A k' = Inl Http404)"
proof -
  have noop: "PartyInvitationViewSet_accept st A k
      = Inr (Response HTTP_204_NO_CONTENT NoData, st)"
    using assms by (rule accept_wrong_actor)
  have "\<forall>(u, k') \<in> set (replicate n (A, k)).
      \<exists>J. PartyInvitationViewSet_get_object st k' = Inr J \<and> u \<noteq> receiver J"
    using assms by auto
  then have repeated: "accept_calls st (replicate n (A, k)) = Inr st"
    by (rule accept_calls_wrong_actors)
  have success: "map_sum id fst (PartyInvitationViewSet_accept st (receiver I) k)
      = Inr (Response HTTP_201_CREATED NoData)"
    using assms(1) by (simp add: PartyInvitationViewSet_accept_def)
  from noop repeated success show ?thesis
    by (simp add: accept_calls_wrong_actors accept_Http404)
qed

theorem PartyInvitationViewSet_accept_wrong_actor_witness:
  "PartyInvitationViewSet_get_object example_store 1 = Inr \<lparr>pk = 1, party = 10, receiver = 4\<rparr>
   \<and> (3::nat) \<noteq> receiver \<lparr>pk = 1, party = 10, receiver = 4\<rparr>
   \<and> PartyInvitationViewSet_accept example_store 3 1
       = Inr (Response HTTP_204_NO_CONTENT NoData, example_store)
   \<and> accept_calls example_store [(3, 1), (3, 1), (3, 1)] = Inr example_store
   \<and> PartyInvitationViewSet_get_object example_store 7 = Inl Http404
   \<and> PartyInvitationViewSet_accept example_store 3 7 = Inl Http404"
proof -
  let ?I = "\<lparr>pk = 1, party = 10, receiver = 4\<rparr>"
  have inv: "PartyInvitationViewSet_get_object example_store 1 = Inr ?I"
    by (simp add: view_defs example_store_def)
  have actor: "(3::nat) \<noteq> receiver ?I" by simp
  have missing: "PartyInvitationViewSet_get_object example_store 7 = Inl Http404"
    by (simp add: view_defs example_store_def)
  have three: "replicate 3 (3::nat, 1::nat) = [(3, 1), (3, 1), (3, 1)]"
    by (simp add: numeral_3_eq_3)
  show ?thesis
    using inv missing three
      PartyInvitationViewSet_accept_wrong_actor [OF inv actor, of 3 7]
    by simp
qed

text \<open>
  The claim as the spec words it fails in the example store: user 3 is not the receiver
  of invitation 1 and is answered 204, the receiver is answered 201, so the two outcomes
  can be told apart; and a request of user 3 for the identifier 7, which names no
  invitation, raises \<^verbatim>\<open>Http404\<close>, so the answer reveals whether the invitation exists.
\<close>

theorem PartyInvitationViewSet_accept_wrong_actor_counterexample:
  "PartyInvitationViewSet_get_object example_store 1 = Inr \<lparr>pk = 1, party = 10, receiver = 4\<rparr>
   \<and> PartyInvitationViewSet_accept example_store 3 1
       = Inr (Response HTTP_204_NO_CONTENT NoData, example_store)
   \<and> map_sum id fst (PartyInvitationViewSet_accept example_store 4 1)
       = Inr (Response HTTP_201_CREATED NoData)
   \<and> map_sum id fst (PartyInvitationViewSet_accept example_store 3 1)
       \<noteq> map_sum id fst (PartyInvitationViewSet_accept example_store 4 1)
   \<and> PartyInvitationViewSet_accept example_store 3 7 = Inl Http404
   \<and> map_sum id fst (PartyInvitationViewSet_accept example_store 3 1)
       \<noteq> map_sum id fst (PartyInvitationViewSet_accept example_store 3 7)"
  by (simp add: PartyInvitationViewSet_accept_def view_defs example_store_def)

text \<open>
  Claim C3. For a pending invitation \<open>I\<close> with receiver \<open>U2\<close> whose party \<open>P\<close> is in the
  store, \<^verbatim>\<open>accept\<close> by \<open>U2\<close> answers 201, adds \<open>U2\<close> to the participants of \<open>P\<close> and
  removes the invitation: no row with its identifier remains, and a second accept of the
  same identifier raises \<^verbatim>\<open>Http404\<close>.
\<close>

theorem PartyInvitationViewSet_accept_by_receiver:
  assumes "PartyInvitationViewSet_get_object st k = Inr I"
    and "receiver I = U2"
    and "PartyViewSet_get_object st (party I) = Inr P"
  shows "PartyInvitationViewSet_accept st U2 k
           = Inr (Response HTTP_201_CREATED NoData, PartyInvitation_accept st I)
       \<and> PartyViewSet_get_object (PartyInvitation_accept st I) (party I)
           = Inr (P\<lparr>participants := finsert U2 (participants P)\<rparr>)
       \<and> filter (\<lambda>j. pk j = k) (invitations (PartyInvitation_accept st I)) = []
       \<and> PartyInvitationViewSet_accept (PartyInvitation_accept st I) U2 k = Inl Http404"
proof -
  have key: "pk I = k" using assms(1) by (rule invitation_key)
  have accepted: "PartyInvitationViewSet_accept st U2 k
      = Inr (Response HTTP_201_CREATED NoData, PartyInvitation_accept st I)"
    using assms(1,2) by (simp add: PartyInvitationViewSet_accept_def)
  have joined: "PartyViewSet_get_object (PartyInvitation_accept st I) (party I)
      = Inr (P\<lparr>participants := finsert U2 (participants P)\<rparr>)"
    using PartyInvitation_accept_get_object [OF assms(3)] assms(2) by simp
  have gone: "filter (\<lambda>j. pk j = k) (invitations (PartyInvitation_accept st I)) = []"
    using PartyInvitation_accept_invitation_gone [of I st] key by simp
  then have "PartyInvitationViewSet_get_object (PartyInvitation_accept st I) k = Inl Http404"
    by (simp add: PartyInvitationViewSet_get_object_def get_object_or_404_Http404)
  then have again: "PartyInvitationViewSet_accept (PartyInvitation_accept st I) U2 k = Inl Http404"
    by (rule accept_Http404)
  from accepted joined gone again show ?thesis by simp
qed

theorem PartyInvitationViewSet_accept_by_receiver_witness:
  "PartyInvitationViewSet_get_object example_store 1 = Inr \<lparr>pk = 1, party = 10, receiver = 4\<rparr>
   \<and> PartyViewSet_get_object example_store 10
       = Inr \<lparr>public_id = 10, owner = 1, participants = {|2|}\<rparr>
   \<and> PartyInvitationViewSet_accept example_store 4 1
       = Inr (Response HTTP_201_CREATED NoData,
              \<lparr>parties = [\<lparr>public_id = 10, owner = 1, participants = {|4, 2|}\<rparr>,
                          \<lparr>public_id = 20, owner = 3, participants = {||}\<rparr>],
               invitations = [\<lparr>pk = 2, party = 20, receiver = 2\<rparr>]\<rparr>)
   \<and> PartyInvitationViewSet_accept
        (PartyInvitation_accept example_store \<lparr>pk = 1, party = 10, receiver = 4\<rparr>) 4 1
       = Inl Http404"
proof -
  let ?I = "\<lparr>pk = 1, party = 10, receiver = 4\<rparr>"
  let ?P = "\<lparr>public_id = 10, owner = 1, participants = {|2|}\<rparr>"
  have inv: "PartyInvitationViewSet_get_object example_store 1 = Inr ?I"
    by (simp add: view_defs example_store_def)
  have rcv: "receiver ?I = 4" by simp
  have par: "PartyViewSet_get_object example_store (party ?I) = Inr ?P"
    by (simp add: view_defs example_store_def)
  show ?thesis
    using inv par PartyInvitationViewSet_accept_by_receiver [OF inv rcv par]
    by (simp add: PartyInvitation_accept_def example_store_def)
qed

section \<open>Deleting an invitation\<close>

text \<open>
  Claim C9. \<^verbatim>\<open>PartyInvitationViewSet.destroy\<close> authorizes against the party that the
  request path names, not against the party of the invitation: for every invitation
  \<open>I\<close> and party \<open>P\<close> that the request finds, the delete succeeds whenever the actor is
  the owner of \<open>P\<close> or the receiver of \<open>I\<close>. Nothing relates \<open>P\<close> to \<open>party I\<close>, so the
  owner of any party can delete an invitation of another party. The delete is answered
  204 and removes the invitation: a later lookup of its identifier raises
  \<^verbatim>\<open>Http404\<close>, while every other invitation and every party is as before.
\<close>

theorem PartyInvitationViewSet_destroy_request_party:
  assumes "PartyInvitationViewSet_get_object st k = Inr I"
    and "get_party st pid = Inr P"
    and "A = owner P \<or> A = receiver I"
  shows "PartyInvitationViewSet_destroy st A pid k
           = Inr (Response HTTP_204_NO_CONTENT NoData, perform_destroy_invitation st I)
       \<and> PartyInvitationViewSet_get_object (perform_destroy_invitation st I) k = Inl Http404
       \<and> filter (\<lambda>j. pk j = k) (invitations (perform_destroy_invitation st I)) = []
       \<and> (\<forall>k'. k' \<noteq> k \<longrightarrow>
             PartyInvitationViewSet_get_object (perform_destroy_invitation st I) k'
               = PartyInvitationViewSet_get_object st k')
       \<and> parties (perform_destroy_invitation st I) = parties st"
proof -
  have key: "pk I = k" using assms(1) by (rule invitation_key)
  have deleted: "PartyInvitationViewSet_destroy st A pid k
      = Inr (Response HTTP_204_NO_CONTENT NoData, perform_destroy_invitation st I)"
    using assms by (auto simp: PartyInvitationViewSet_destroy_def)
  have no_row: "filter (\<lambda>j. pk j = k) (invitations (perform_destroy_invitation st I)) = []"
    using key filter_removed [of "\<lambda>j. pk j = k" "invitations st"]
    by (simp add: perform_destroy_invitation_def)
  then have gone:
    "PartyInvitationViewSet_get_object (perform_destroy_invitation st I) k = Inl Http404"
    by (simp add: PartyInvitationViewSet_get_object_def get_object_or_404_Http404)
  have "filter (\<lambda>j. pk j = k') (invitations (perform_destroy_invitation st I))
      = filter (\<lambda>j. pk j = k') (invitations st)" if "k' \<noteq> k" for k'
    using that key filter_other_kept [of "\<lambda>j. pk j = k'" "\<lambda>j. pk j \<noteq> pk I" "invitations st"]
    by (simp add: perform_destroy_invitation_def)
  then have others: "\<forall>k'. k' \<noteq> k \<longrightarrow>
      PartyInvitationViewSet_get_object (perform_destroy_invitation st I) k'
        = PartyInvitationViewSet_get_object st k'"
    by (simp add: PartyInvitationViewSet_get_object_def get_object_or_404_def)
  have kept: "parties (perform_destroy_invitation st I) = parties st"
    by (simp add: perform_destroy_invitation_def)
  from deleted gone no_row others kept show ?thesis by blast
qed

theorem PartyInvitationViewSet_destroy_request_party_witness:
  "PartyInvitationViewSet_get_object example_store 1 = Inr \<lparr>pk = 1, party = 10, receiver = 4\<rparr>
   \<and> get_party example_store 20 = Inr \<lparr>public_id = 20, owner = 3, participants = {||}\<rparr>
   \<and> party \<lparr>pk = 1, party = 10, receiver = 4\<rparr> \<noteq> 20
   \<and> PartyInvitationViewSet_destroy example_store 3 20 1
     = Inr (Response HTTP_204_NO_CONTENT NoData,
            example_store\<lparr>invitations := [\<lparr>pk = 2, party = 20, receiver = 2\<rparr>]\<rparr>)
   \<and> PartyInvitationViewSet_get_object
        (example_store\<lparr>invitations := [\<lparr>pk = 2, party = 20, receiver = 2\<rparr>]\<rparr>) 1
     = Inl Http404
   \<and> PartyInvitationViewSet_get_object
        (example_store\<lparr>invitations := [\<lparr>pk = 2, party = 20, receiver = 2\<rparr>]\<rparr>) 2
     = Inr \<lparr>pk = 2, party = 20, receiver = 2\<rparr>"
proof -
  let ?I = "\<lparr>pk = 1, party = 10, receiver = 4\<rparr>"
  let ?P = "\<lparr>public_id = 20, owner = 3, participants = {||}\<rparr>"
  have inv: "PartyInvitationViewSet_get_object example_store 1 = Inr ?I"
    by (simp add: view_defs example_store_def)
  have other: "PartyInvitationViewSet_get_object example_store 2
      = Inr \<lparr>pk = 2, party = 20, receiver = 2\<rparr>"
    by (simp add: view_defs example_store_def)
  have par: "get_party example_store 20 = Inr ?P"
    by (simp add: view_defs example_store_def)
  have actor: "(3::nat) = owner ?P \<or> 3 = receiver ?I" by simp
  have after: "perform_destroy_invitation example_store ?I
      = example_store\<lparr>invitations := [\<lparr>pk = 2, party = 20, receiver = 2\<rparr>]\<rparr>"
    by (simp add: perform_destroy_invitation_def example_store_def)
  have "(2::nat) \<noteq> 1" by simp
  with inv par other PartyInvitationViewSet_destroy_request_party [OF inv par actor]
  show ?thesis unfolding after by auto
qed

text \<open>
  What \<^verbatim>\<open>destroy\<close> does for the party \<open>P\<close> of the request path: it succeeds exactly when
  the actor is the owner of \<open>P\<close> or the receiver of the invitation, and answers 403 with
  the store unchanged for every other actor; after a success an accept of the same
  identifier, by anyone, raises \<^verbatim>\<open>Http404\<close>.
\<close>

lemma PartyInvitationViewSet_destroy_by_path_party:
  assumes "PartyInvitationViewSet_get_object st k = Inr I"
    and "get_party st pid = Inr P"
  shows "(A = owner P \<or> A = receiver I \<longrightarrow>
            PartyInvitationViewSet_destroy st A pid k
              = Inr (Response HTTP_204_NO_CONTENT NoData, perform_destroy_invitation st I)
          \<and> parties (perform_destroy_invitation st I) = parties st
          \<and> filter (\<lambda>j. pk j = k) (invitations (perform_destroy_invitation st I)) = []
          \<and> PartyInvitationViewSet_accept (perform_destroy_invitation st I) B k = Inl Http404)
       \<and> (A \<noteq> owner P \<and> A \<noteq> receiver I \<longrightarrow>
            PartyInvitationViewSet_destroy st A pid k
              = Inr (Response HTTP_403_FORBIDDEN NoData, st))"
proof -
  have gone: "PartyInvitationViewSet_get_object (perform_destroy_invitation st I) k = Inl Http404"
    using assms(1) by (rule perform_destroy_invitation_get_object)
  then have no_row: "filter (\<lambda>j. pk j = k) (invitations (perform_destroy_invitation st I)) = []"
    by (simp add: PartyInvitationViewSet_get_object_def get_object_or_404_Http404)
  have again: "PartyInvitationViewSet_accept (perform_destroy_invitation st I) B k = Inl Http404"
    using gone by (rule accept_Http404)
  have kept: "parties (perform_destroy_invitation st I) = parties st"
    by (simp add: perform_destroy_invitation_def)
  have permitted: "A = owner P \<or> A = receiver I \<longrightarrow>
      PartyInvitationViewSet_destroy st A pid k
        = Inr (Response HTTP_204_NO_CONTENT NoData, perform_destroy_invitation st I)"
    using assms by (auto simp: PartyInvitationViewSet_destroy_def)
  have forbidden: "A \<noteq> owner P \<and> A \<noteq> receiver I \<longrightarrow>
      PartyInvitationViewSet_destroy st A pid k = Inr (Response HTTP_403_FORBIDDEN NoData, st)"
    using assms by (simp add: PartyInvitationViewSet_destroy_def)
  from no_row again kept permitted forbidden show ?thesis by blast
qed

text \<open>
  When the request path names the target party of the invitation, the delete is
  permitted to the owner of the target party and to the receiver, and to nobody else.
\<close>

lemma PartyInvitationViewSet_destroy_path_is_target:
  assumes "PartyInvitationViewSet_get_object st k = Inr I"
    and "get_party st (party I) = Inr P"
  shows "PartyInvitationViewSet_destroy st A (party I) k
           = (if A = owner P \<or> A = receiver I
              then Inr (Response HTTP_204_NO_CONTENT NoData, perform_destroy_invitation st I)
              else Inr (Response HTTP_403_FORBIDDEN NoData, st))"
  using assms by (auto simp: PartyInvitationViewSet_destroy_def)

text \<open>
  Claim C6 permits the delete of a pending invitation to the owner of its target party
  and to its receiver, and forbids it to every other actor. \<^verbatim>\<open>destroy\<close> tests the
  owner of the party of the request path instead and never compares that party with the
  party of the invitation, which \<^verbatim>\<open>create\<close> and \<^verbatim>\<open>list\<close> do bind to the path party.
  In the example store invitation 1 targets party 10, owned by user 1, and its receiver
  is user 4. Through the path of party 20, user 3, who owns party 20 and is neither the
  owner of party 10 nor the receiver, is answered 204 and the invitation is gone; through
  the same path user 1, the owner of the target party, is answered 403.
\<close>

theorem PartyInvitationViewSet_destroy_other_party_owner:
  "PartyInvitationViewSet_get_object example_store 1 = Inr \<lparr>pk = 1, party = 10, receiver = 4\<rparr>
   \<and> PartyViewSet_get_object example_store 10
       = Inr \<lparr>public_id = 10, owner = 1, participants = {|2|}\<rparr>
   \<and> PartyInvitationViewSet_destroy example_store 3 20 1
       = Inr (Response HTTP_204_NO_CONTENT NoData,
              example_store\<lparr>invitations := [\<lparr>pk = 2, party = 20, receiver = 2\<rparr>]\<rparr>)
   \<and> PartyInvitationViewSet_get_object
        (example_store\<lparr>invitations := [\<lparr>pk = 2, party = 20, receiver = 2\<rparr>]\<rparr>) 1
       = Inl Http404
   \<and> PartyInvitationViewSet_destroy example_store 1 20 1
       = Inr (Response HTTP_403_FORBIDDEN NoData, example_store)"
  by (simp add: PartyInvitationViewSet_destroy_def view_defs example_store_def)

section \<open>Creating an invitation\<close>

text \<open>
  Claim C7. For a party \<open>P\<close> that the request path names and a payload that specifies a
  receiver, \<^verbatim>\<open>PartyInvitationViewSet.create\<close> succeeds iff the actor is the owner of
  \<open>P\<close>: the owner is answered 201 and a new invitation of \<open>P\<close> for that receiver is
  appended to the store, where a lookup by its identifier finds it; every other actor
  is answered 403 and the store is unchanged.
\<close>

theorem PartyInvitationViewSet_create_owner_only:
  assumes "get_party st pid = Inr P"
  shows "(A = owner P \<and> d ''receiver_public_id'' = Some r \<longrightarrow>
            PartyInvitationViewSet_create st A pid d
              = Inr (Response HTTP_201_CREATED NoData,
                     st\<lparr>invitations := invitations st @
                          [\<lparr>pk = fresh_id (map pk (invitations st)), party = pid,
                            receiver = r\<rparr>]\<rparr>)
          \<and> PartyInvitationViewSet_get_object
                (st\<lparr>invitations := invitations st @
                     [\<lparr>pk = fresh_id (map pk (invitations st)), party = pid,
                       receiver = r\<rparr>]\<rparr>)
                (fresh_id (map pk (invitations st)))
              = Inr \<lparr>pk = fresh_id (map pk (invitations st)), party = pid, receiver = r\<rparr>)
       \<and> (A \<noteq> owner P \<longrightarrow>
            PartyInvitationViewSet_create st A pid d
              = Inr (Response HTTP_403_FORBIDDEN NoData, st))
       \<and> (d ''receiver_public_id'' = Some r \<longrightarrow>
            ((\<exists>st'. PartyInvitationViewSet_create st A pid d
                      = Inr (Response HTTP_201_CREATED NoData, st'))
             \<longleftrightarrow> A = owner P))"
proof -
  let ?new = "\<lparr>pk = fresh_id (map pk (invitations st)), party = pid, receiver = r\<rparr>"
  have created: "A = owner P \<and> d ''receiver_public_id'' = Some r \<longrightarrow>
      PartyInvitationViewSet_create st A pid d
        = Inr (Response HTTP_201_CREATED NoData, st\<lparr>invitations := invitations st @ [?new]\<rparr>)"
    using PartyInvitationViewSet_create_owner [OF assms, of d] by auto
  have pending: "PartyInvitationViewSet_get_object
      (st\<lparr>invitations := invitations st @ [?new]\<rparr>) (fresh_id (map pk (invitations st)))
      = Inr ?new"
    using appended_invitation_get_object [of ?new st] by simp
  have forbidden: "A \<noteq> owner P \<longrightarrow>
      PartyInvitationViewSet_create st A pid d = Inr (Response HTTP_403_FORBIDDEN NoData, st)"
    using PartyInvitationViewSet_create_forbidden [OF assms] by simp
  have iff: "d ''receiver_public_id'' = Some r \<longrightarrow>
      ((\<exists>st'. PartyInvitationViewSet_create st A pid d
                = Inr (Response HTTP_201_CREATED NoData, st'))
       \<longleftrightarrow> A = owner P)"
    using created forbidden by auto
  from created pending forbidden iff show ?thesis by blast
qed

theorem PartyInvitationViewSet_create_owner_only_witness:
  "get_party example_store 10 = Inr \<lparr>public_id = 10, owner = 1, participants = {|2|}\<rparr>
   \<and> [''receiver_public_id'' \<mapsto> 5::nat] ''receiver_public_id'' = Some 5
   \<and> PartyInvitationViewSet_create example_store 1 10 [''receiver_public_id'' \<mapsto> 5]
       = Inr (Response HTTP_201_CREATED NoData,
              example_store\<lparr>invitations :=
                [\<lparr>pk = 1, party = 10, receiver = 4\<rparr>,
                 \<lparr>pk = 2, party = 20, receiver = 2\<rparr>,
                 \<lparr>pk = 3, party = 10, receiver = 5\<rparr>]\<rparr>)
   \<and> PartyInvitationViewSet_create example_store 2 10 [''receiver_public_id'' \<mapsto> 5]
       = Inr (Response HTTP_403_FORBIDDEN NoData, example_store)"
proof -
  let ?P = "\<lparr>public_id = 10, owner = 1, participants = {|2|}\<rparr>"
  let ?d = "[''receiver_public_id'' \<mapsto> 5::nat]"
  have par: "get_party example_store 10 = Inr ?P"
    by (simp add: view_defs example_store_def)
  have fresh: "fresh_id (map pk (invitations example_store)) = 3"
    by (simp add: fresh_id_def example_store_def)
  show ?thesis
    using par
      PartyInvitationViewSet_create_owner_only [OF par, of 1 ?d 5]
      PartyInvitationViewSet_create_owner_only [OF par, of 2 ?d 5]
    by (simp add: fresh) (simp add: example_store_def)
qed

text \<open>
  Claim C10. Every invitation that \<^verbatim>\<open>create\<close> makes targets the party of the request
  path: a \<^verbatim>\<open>party_public_id\<close> in the payload is overridden by the identifier of the path
  party before validation, so the answer does not depend on it, and the owner test is
  made against the same party. So after a successful create the new invitation's party
  is the party that the requester was checked to own.
\<close>

theorem PartyInvitationViewSet_create_path_party:
  "(PartyInvitationViewSet_create st A pid d = Inr (Response HTTP_201_CREATED NoData, st') \<longrightarrow>
      (\<exists>P I. get_party st pid = Inr P \<and> A = owner P \<and> public_id P = pid
             \<and> st' = st\<lparr>invitations := invitations st @ [I]\<rparr>
             \<and> party I = public_id P))
   \<and> PartyInvitationViewSet_create st A pid (d(''party_public_id'' \<mapsto> x))
       = PartyInvitationViewSet_create st A pid d"
proof (intro conjI impI)
  assume ok: "PartyInvitationViewSet_create st A pid d
      = Inr (Response HTTP_201_CREATED NoData, st')"
  then obtain P where par: "get_party st pid = Inr P"
    by (cases "get_party st pid") (simp_all add: PartyInvitationViewSet_create_def)
  have actor: "A = owner P"
    using ok par by (cases "A = owner P") (simp_all add: PartyInvitationViewSet_create_def)
  have key: "public_id P = pid" using par by (rule get_party_key)
  obtain r where rcv: "d ''receiver_public_id'' = Some r"
    using ok actor PartyInvitationViewSet_create_owner [OF par, of d]
    by (cases "d ''receiver_public_id''") auto
  have "st' = st\<lparr>invitations := invitations st @
      [\<lparr>pk = fresh_id (map pk (invitations st)), party = pid, receiver = r\<rparr>]\<rparr>"
    using ok actor rcv PartyInvitationViewSet_create_owner [OF par, of d] by simp
  with par actor key
  show "\<exists>P I. get_party st pid = Inr P \<and> A = owner P \<and> public_id P = pid
             \<and> st' = st\<lparr>invitations := invitations st @ [I]\<rparr>
             \<and> party I = public_id P"
    by (intro exI [of _ P]
        exI [of _ "\<lparr>pk = fresh_id (map pk (invitations st)), party = pid, receiver = r\<rparr>"])
      simp
next
  show "PartyInvitationViewSet_create st A pid (d(''party_public_id'' \<mapsto> x))
      = PartyInvitationViewSet_create st A pid d"
    by (simp add: PartyInvitationViewSet_create_def cong: sum.case_cong if_cong)
qed

theorem PartyInvitationViewSet_create_path_party_witness:
  "PartyInvitationViewSet_create example_store 1 10
       [''receiver_public_id'' \<mapsto> 5, ''party_public_id'' \<mapsto> 20]
     = Inr (Response HTTP_201_CREATED NoData,
            example_store\<lparr>invitations :=
              [\<lparr>pk = 1, party = 10, receiver = 4\<rparr>,
               \<lparr>pk = 2, party = 20, receiver = 2\<rparr>,
               \<lparr>pk = 3, party = 10, receiver = 5\<rparr>]\<rparr>)
   \<and> (\<exists>P I. get_party example_store 10 = Inr P \<and> 1 = owner P \<and> public_id P = 10
         \<and> example_store\<lparr>invitations :=
              [\<lparr>pk = 1, party = 10, receiver = 4\<rparr>,
               \<lparr>pk = 2, party = 20, receiver = 2\<rparr>,
               \<lparr>pk = 3, party = 10, receiver = 5\<rparr>]\<rparr>
             = example_store\<lparr>invitations := invitations example_store @ [I]\<rparr>
         \<and> party I = public_id P)"
proof -
  let ?d = "[''receiver_public_id'' \<mapsto> 5::nat, ''party_public_id'' \<mapsto> 20]"
  let ?st' = "example_store\<lparr>invitations :=
              [\<lparr>pk = 1, party = 10, receiver = 4\<rparr>,
               \<lparr>pk = 2, party = 20, receiver = 2\<rparr>,
               \<lparr>pk = 3, party = 10, receiver = 5\<rparr>]\<rparr>"
  have ok: "PartyInvitationViewSet_create example_store 1 10 ?d
      = Inr (Response HTTP_201_CREATED NoData, ?st')"
    by (simp add: PartyInvitationViewSet_create_def PartyInvitationSerializer_create_def
        view_defs fresh_id_def example_store_def)
  show ?thesis
    using ok PartyInvitationViewSet_create_path_party [of example_store 1 10 ?d ?st'] by blast
qed

section \<open>The owner of a party on create and update\<close>

text \<open>
  \<^verbatim>\<open>create\<close> and \<^verbatim>\<open>update\<close> overwrite \<^verbatim>\<open>owner_public_id\<close> in the payload with the
  identity of the requester: a created party is owned by the requester, and a successful
  full update leaves the stored owner as it was. \<^verbatim>\<open>partial_update\<close> hands the payload
  to the serializer as it came.
\<close>

lemma PartyViewSet_create_owner:
  "PartyViewSet_create st A d
     = Inr (Response HTTP_201_CREATED
              (PartyData \<lparr>public_id = fresh_id (map public_id (parties st)), owner = A,
                          participants = {||}\<rparr>),
            st\<lparr>parties := parties st @
                 [\<lparr>public_id = fresh_id (map public_id (parties st)), owner = A,
                   participants = {||}\<rparr>]\<rparr>)"
  by (simp add: PartyViewSet_create_def PartySerializer_create_def)

lemma PartyViewSet_update_owner:
  assumes "PartyViewSet_get_object st pid = Inr P"
  shows "PartyViewSet_update st A pid d
           = (if owner P \<noteq> A then Inr (Response HTTP_403_FORBIDDEN NoData, st)
              else Inr (Response HTTP_200_OK (PartyData P), save_party st P))"
proof (cases "owner P = A")
  case True
  show ?thesis
    using assms unfolding True [symmetric]
    by (simp add: PartyViewSet_update_def PartySerializer_update_def)
next
  case False
  with assms show ?thesis by (simp add: PartyViewSet_update_def)
qed

lemma PartyViewSet_update_stored_owner:
  assumes "PartyViewSet_get_object st pid = Inr P"
    and "PartyViewSet_update st A pid d = Inr (Response HTTP_200_OK b, st')"
  shows "\<exists>P'. PartyViewSet_get_object st' pid = Inr P' \<and> owner P' = owner P \<and> owner P' = A"
proof -
  from assms have own: "owner P = A" and st': "st' = save_party st P"
    by (auto simp: PartyViewSet_update_owner [OF assms(1)] split: if_splits)
  have "PartyViewSet_get_object (save_party st P) pid = Inr P"
    using assms(1) by (rule save_party_get_object) simp
  with own st' show ?thesis by simp
qed

lemma PartyViewSet_partial_update_owner:
  assumes "PartyViewSet_get_object st pid = Inr P" and "owner P = A"
  shows "PartyViewSet_partial_update st A pid d
           = (case d ''owner_public_id'' of
                None \<Rightarrow> Inr (Response HTTP_200_OK (PartyData P), save_party st P)
              | Some u \<Rightarrow>
                  Inr (Response HTTP_200_OK (PartyData (P\<lparr>owner := u\<rparr>)),
                       save_party st (P\<lparr>owner := u\<rparr>)))"
  using assms
  by (simp add: PartyViewSet_partial_update_def PartySerializer_update_def split: option.splits)

text \<open>
  Claim C1 says that a successful update, full or partial, leaves the stored owner equal
  to the owner before it, the owner field of the payload being replaced by the identity
  of the requester. In the example store user 1 owns party 10. A partial update by user
  1 with the payload \<^verbatim>\<open>{owner_public_id: 3}\<close> is answered 200 and stores user 3 as the
  owner, while the full update with the same payload keeps user 1.
\<close>

theorem PartyViewSet_partial_update_owner_from_payload:
  "PartyViewSet_get_object example_store 10
     = Inr \<lparr>public_id = 10, owner = 1, participants = {|2|}\<rparr>
   \<and> PartyViewSet_partial_update example_store 1 10 [''owner_public_id'' \<mapsto> 3]
     = Inr (Response HTTP_200_OK
              (PartyData \<lparr>public_id = 10, owner = 3, participants = {|2|}\<rparr>),
            example_store\<lparr>parties :=
              [\<lparr>public_id = 10, owner = 3, participants = {|2|}\<rparr>,
               \<lparr>public_id = 20, owner = 3, participants = {||}\<rparr>]\<rparr>)
   \<and> PartyViewSet_update example_store 1 10 [''owner_public_id'' \<mapsto> 3]
     = Inr (Response HTTP_200_OK
              (PartyData \<lparr>public_id = 10, owner = 1, participants = {|2|}\<rparr>),
            example_store)"
  by (simp add: PartyViewSet_partial_update_def PartyViewSet_update_def
      PartySerializer_update_def view_defs example_store_def)

end
